theory Spec2Isabelle
  imports Complex_Main
begin

section \<open>hgdecode/loaders.py: data model\<close>

text \<open>
  The loaders sequence calls into mne, braindecode and numpy. Those libraries are not part
  of the repository, so each call is a field of the record \<open>collaborators\<close>: a function
  that either returns its result or raises (\<open>Inl\<close> the message). What the module itself
  computes (path construction, the all-channels sentinel, the amplitude mask, the mean
  subtraction, the stage order, the split arithmetic of \<open>dl_loader\<close>) is translated
  function by function.

  Signal values are float64/float32 in the program. They are modelled by the rationals:
  every finite float is a rational, and \<open>abs\<close>, \<open>max\<close> and \<open><\<close> are exact on them.
  Arithmetic that rounds (the mean, the division by 1.8) is modelled without the rounding
  error; NaN and infinities are outside the model.
\<close>

datatype error =
    FileCountError      \<comment> \<open>\<open>Exception('something went wrong: check single/multiple file loading routine.')\<close>\<close>
  | ValueError          \<comment> \<open>numpy: maximum of a zero-size array\<close>
  | AxisError           \<comment> \<open>numpy: a reduction axis the array does not have\<close>
  | IndexError          \<comment> \<open>numpy: index out of bounds, boolean index of the wrong length\<close>
  | TypeError           \<comment> \<open>a slice bound that is not an integer\<close>
  | Raised string       \<comment> \<open>whatever a collaborator raises, propagated as it is\<close>

text \<open>A continuous recording: channels x samples, with the metadata the loaders read.\<close>

record cnt =
  cnt_data :: "rat list list"
  sfreq :: rat
  ch_names :: "string list"
  events :: "(nat \<times> int) list"

text \<open>A segmented set (braindecode's SignalAndTarget): trials x channels x samples, labels.\<close>

record epo =
  epo_X :: "rat list list list"
  epo_y :: "int list"

type_synonym start_codes = "(string \<times> int list) list"
type_synonym ival_ms = "int \<times> int"

record collaborators =
  BBCIDataset_load :: "string \<Rightarrow> string list option \<Rightarrow> string + cnt"
  concatenate_raws_with_events :: "cnt list \<Rightarrow> string + cnt"
  create_signal_target_from_raw_mne :: "cnt \<Rightarrow> start_codes \<Rightarrow> ival_ms \<Rightarrow> string + epo"
  pick_channels :: "cnt \<Rightarrow> string list \<Rightarrow> string + cnt"
  resample_cnt :: "cnt \<Rightarrow> rat \<Rightarrow> string + cnt"
  bandpass_cnt :: "rat list list \<Rightarrow> rat \<Rightarrow> rat \<Rightarrow> rat \<Rightarrow> string + rat list list"

definition external :: "string + 'a \<Rightarrow> error + 'a" where
  "external r = (case r of Inl m \<Rightarrow> Inl (Raised m) | Inr v \<Rightarrow> Inr v)"

section \<open>Path resolution\<close>

text \<open>\<open>'{:d}'.format(subject_id)\<close>: the decimal digits, with a minus sign below zero.\<close>

fun str_nat :: "nat \<Rightarrow> string" where
  "str_nat n = (if n < 10 then [''0123456789'' ! n]
                else str_nat (n div 10) @ [''0123456789'' ! (n mod 10)])"

declare str_nat.simps [simp del]

definition format_d :: "int \<Rightarrow> string" where
  "format_d i = (if i < 0 then ''-'' @ str_nat (nat (- i)) else str_nat (nat i))"

text \<open>\<open>os.path.join\<close> (posixpath): a component that starts with the separator restarts
  the path; a separator is inserted unless the path so far is empty or ends with one.\<close>

definition join_step :: "string \<Rightarrow> string \<Rightarrow> string" where
  "join_step path b =
     (if b \<noteq> [] \<and> hd b = CHR ''/'' then b
      else if path = [] \<or> last path = CHR ''/'' then path @ b
      else path @ ''/'' @ b)"

definition join :: "string \<Rightarrow> string list \<Rightarrow> string" where
  "join a p = foldl join_step a p"

definition get_data_files_paths :: "string \<Rightarrow> int \<Rightarrow> bool \<Rightarrow> string list" where
  "get_data_files_paths data_dir subject_id train_test_split =
     (let file_name = format_d subject_id @ ''.mat'' in
      if train_test_split then
        (let train_file_path = join data_dir [''train'', file_name];
             test_file_path = join data_dir [''test'', file_name]
         in [train_file_path, test_file_path])
      else [join data_dir [''train'', file_name]])"

section \<open>Raw loading\<close>

text \<open>\<open>load_cnt\<close>: with \<open>clean_on_all_channels\<close> the channel filter handed to the reader is
  \<open>None\<close>, the reader's sentinel for all sensors.\<close>

definition load_cnt :: "collaborators \<Rightarrow> string \<Rightarrow> string list \<Rightarrow> bool \<Rightarrow> error + cnt" where
  "load_cnt env file_path channel_names clean_on_all_channels =
     (let load_sensor_names = (if clean_on_all_channels then None else Some channel_names)
      in external (BBCIDataset_load env file_path load_sensor_names))"

section \<open>Trial-quality mask\<close>

text \<open>\<open>max(abs(X), axis=(1, 2))\<close>: one peak per trial, over all its channels and samples.
  numpy raises ValueError when a trial holds no value at all. When the segmenter found no
  trial, its \<open>X\<close> is an empty array of one dimension: it has no axis 1, and numpy raises
  AxisError.\<close>

definition trial_peak :: "rat list list \<Rightarrow> error + rat" where
  "trial_peak trial =
     (let vals = concat trial in
      if vals = [] then Inl ValueError else Inr (Max (set (map abs vals))))"

fun trial_peaks :: "rat list list list \<Rightarrow> error + rat list" where
  "trial_peaks [] = Inr []"
| "trial_peaks (t # ts) =
     (case trial_peak t of
        Inl e \<Rightarrow> Inl e
      | Inr p \<Rightarrow> (case trial_peaks ts of Inl e \<Rightarrow> Inl e | Inr ps \<Rightarrow> Inr (p # ps)))"

definition max_abs_axis12 :: "rat list list list \<Rightarrow> error + rat list" where
  "max_abs_axis12 X = (if X = [] then Inl AxisError else trial_peaks X)"

definition get_clean_trial_mask ::
    "collaborators \<Rightarrow> cnt \<Rightarrow> start_codes \<Rightarrow> ival_ms \<Rightarrow> error + bool list" where
  "get_clean_trial_mask env c name_to_start_codes clean_ival_ms =
     (case external (create_signal_target_from_raw_mne env c name_to_start_codes clean_ival_ms) of
        Inl e \<Rightarrow> Inl e
      | Inr set_for_cleaning \<Rightarrow>
          (case max_abs_axis12 (epo_X set_for_cleaning) of
             Inl e \<Rightarrow> Inl e
           | Inr peaks \<Rightarrow> Inr (map (\<lambda>p. p < 800) peaks)))"

section \<open>Channel selection and standardization\<close>

definition pick_right_channels :: "collaborators \<Rightarrow> cnt \<Rightarrow> string list \<Rightarrow> error + cnt" where
  "pick_right_channels env c channel_names = external (pick_channels env c channel_names)"

text \<open>braindecode's \<open>mne_apply(func, raw)\<close>: \<open>RawArray(func(raw.get_data()), raw.info)\<close>,
  the function applied to the channels x samples matrix, the metadata kept.\<close>

definition mne_apply :: "(rat list list \<Rightarrow> error + rat list list) \<Rightarrow> cnt \<Rightarrow> error + cnt" where
  "mne_apply func raw =
     (case func (cnt_data raw) of
        Inl e \<Rightarrow> Inl e
      | Inr new_data \<Rightarrow> Inr (raw\<lparr>cnt_data := new_data\<rparr>))"

definition n_samples :: "rat list list \<Rightarrow> nat" where
  "n_samples x = (case x of [] \<Rightarrow> 0 | r # _ \<Rightarrow> length r)"

text \<open>\<open>mean(x, axis=0, keepdims=True)\<close>: at each time sample, the mean over the channels.\<close>

definition mean_axis0 :: "rat list list \<Rightarrow> rat list" where
  "mean_axis0 x = map (\<lambda>t. (\<Sum>r\<leftarrow>x. r ! t) / of_nat (length x)) [0..<n_samples x]"

text \<open>\<open>lambda x: x - mean(x, axis=0, keepdims=True)\<close>: the mean row is broadcast over the
  channels.\<close>

definition subtract_mean :: "rat list list \<Rightarrow> rat list list" where
  "subtract_mean x = map (\<lambda>r. map2 (-) r (mean_axis0 x)) x"

definition standardize_cnt :: "collaborators \<Rightarrow> cnt \<Rightarrow> error + cnt" where
  "standardize_cnt env c =
     (case mne_apply (\<lambda>x. Inr (subtract_mean x)) c of
        Inl e \<Rightarrow> Inl e
      | Inr c1 \<Rightarrow>
          (let sampling_freq = sfreq c1;
               nyquist_freq = sampling_freq / 2
           in mne_apply (\<lambda>x. external (bandpass_cnt env x (1 / 10) nyquist_freq sampling_freq)) c1))"

section \<open>The pipeline: \<open>load_and_preprocess_data\<close>\<close>

text \<open>Lines 131 to 158: one file is loaded as it is and has no split boundary; two files
  are loaded in turn, the boundary is the train recording's event count, and the two are
  concatenated; any other number of paths raises.\<close>

definition load_files ::
    "collaborators \<Rightarrow> string list \<Rightarrow> string list \<Rightarrow> bool \<Rightarrow> error + (cnt \<times> int option)" where
  "load_files env file_paths channel_names clean_on_all_channels =
     (if length file_paths = 1 then
        (case load_cnt env (file_paths ! 0) channel_names clean_on_all_channels of
           Inl e \<Rightarrow> Inl e
         | Inr c \<Rightarrow> Inr (c, None))
      else if length file_paths = 2 then
        (case load_cnt env (file_paths ! 0) channel_names clean_on_all_channels of
           Inl e \<Rightarrow> Inl e
         | Inr train_cnt \<Rightarrow>
             (case load_cnt env (file_paths ! 1) channel_names clean_on_all_channels of
                Inl e \<Rightarrow> Inl e
              | Inr test_cnt \<Rightarrow>
                  (let train_len = int (length (events train_cnt)) in
                   case external (concatenate_raws_with_events env [train_cnt, test_cnt]) of
                     Inl e \<Rightarrow> Inl e
                   | Inr c \<Rightarrow> Inr (c, Some train_len))))
      else Inl FileCountError)"

text \<open>Lines 161 to 189, on the loaded recording: mask, channel selection, optional
  resampling, standardization.\<close>

definition preprocess_loaded ::
    "collaborators \<Rightarrow> cnt \<Rightarrow> start_codes \<Rightarrow> string list \<Rightarrow> rat option \<Rightarrow> ival_ms
       \<Rightarrow> error + (cnt \<times> bool list)" where
  "preprocess_loaded env c name_to_start_codes channel_names resampling_freq clean_ival_ms =
     (case get_clean_trial_mask env c name_to_start_codes clean_ival_ms of
        Inl e \<Rightarrow> Inl e
      | Inr clean_trial_mask \<Rightarrow>
          (case pick_right_channels env c channel_names of
             Inl e \<Rightarrow> Inl e
           | Inr c1 \<Rightarrow>
               (case (case resampling_freq of
                        None \<Rightarrow> Inr c1
                      | Some f \<Rightarrow> external (resample_cnt env c1 f)) of
                  Inl e \<Rightarrow> Inl e
                | Inr c2 \<Rightarrow>
                    (case standardize_cnt env c2 of
                       Inl e \<Rightarrow> Inl e
                     | Inr c3 \<Rightarrow> Inr (c3, clean_trial_mask)))))"

text \<open>The body of \<open>load_and_preprocess_data\<close> from line 131 on, for a given path list.\<close>

definition load_and_preprocess_paths ::
    "collaborators \<Rightarrow> string list \<Rightarrow> start_codes \<Rightarrow> string list \<Rightarrow> rat option \<Rightarrow> ival_ms
       \<Rightarrow> bool \<Rightarrow> error + (cnt \<times> bool list \<times> int option)" where
  "load_and_preprocess_paths env file_paths name_to_start_codes channel_names resampling_freq
       clean_ival_ms clean_on_all_channels =
     (case load_files env file_paths channel_names clean_on_all_channels of
        Inl e \<Rightarrow> Inl e
      | Inr (c, train_len) \<Rightarrow>
          (case preprocess_loaded env c name_to_start_codes channel_names resampling_freq
                  clean_ival_ms of
             Inl e \<Rightarrow> Inl e
           | Inr (c', clean_trial_mask) \<Rightarrow> Inr (c', clean_trial_mask, train_len)))"

definition load_and_preprocess_data ::
    "collaborators \<Rightarrow> string \<Rightarrow> start_codes \<Rightarrow> string list \<Rightarrow> int \<Rightarrow> rat option \<Rightarrow> ival_ms
       \<Rightarrow> bool \<Rightarrow> bool \<Rightarrow> error + (cnt \<times> bool list \<times> int option)" where
  "load_and_preprocess_data env data_dir name_to_start_codes channel_names subject_id
       resampling_freq clean_ival_ms train_test_split clean_on_all_channels =
     load_and_preprocess_paths env
       (get_data_files_paths data_dir subject_id train_test_split)
       name_to_start_codes channel_names resampling_freq clean_ival_ms clean_on_all_channels"

text \<open>\<open>ml_loader\<close> calls the pipeline with \<open>clean_on_all_channels\<close> at its default and keeps
  the first two results.\<close>

definition ml_loader ::
    "collaborators \<Rightarrow> string \<Rightarrow> start_codes \<Rightarrow> string list \<Rightarrow> int \<Rightarrow> rat option \<Rightarrow> ival_ms
       \<Rightarrow> bool \<Rightarrow> error + (cnt \<times> bool list)" where
  "ml_loader env data_dir name_to_start_codes channel_names subject_id resampling_freq
       clean_ival_ms train_test_split =
     (case load_and_preprocess_data env data_dir name_to_start_codes channel_names subject_id
              resampling_freq clean_ival_ms train_test_split True of
        Inl e \<Rightarrow> Inl e
      | Inr (c, clean_trial_mask, _) \<Rightarrow> Inr (c, clean_trial_mask))"

section \<open>The deep-learning consumer: \<open>dl_loader\<close>\<close>

text \<open>\<open>numpy.round\<close>: to the nearest integer, a tie to the even one.\<close>

definition np_round :: "rat \<Rightarrow> int" where
  "np_round q =
     (let f = \<lfloor>q\<rfloor>; d = q - of_int f in
      if d < 1 / 2 then f
      else if 1 / 2 < d then f + 1
      else if even f then f else f + 1)"

text \<open>A slice \<open>xs[start:stop]\<close> of step one: a negative bound counts from the end, and
  both bounds are clipped to the list.\<close>

definition py_slice :: "'a list \<Rightarrow> int option \<Rightarrow> int option \<Rightarrow> 'a list" where
  "py_slice xs start stop =
     (let n = int (length xs);
          clip = (\<lambda>i. if i < 0 then max (i + n) 0 else min i n);
          lo = (case start of None \<Rightarrow> 0 | Some s \<Rightarrow> clip s);
          hi = (case stop of None \<Rightarrow> n | Some s \<Rightarrow> clip s)
      in take (nat (hi - lo)) (drop (nat lo) xs))"

text \<open>Indexing by an integer array: every index has to be in range (a negative one counts
  from the end), or numpy raises IndexError.\<close>

fun index_ints :: "'a list \<Rightarrow> int list \<Rightarrow> error + 'a list" where
  "index_ints xs [] = Inr []"
| "index_ints xs (i # js) =
     (let n = int (length xs); j = (if i < 0 then i + n else i) in
      if 0 \<le> j \<and> j < n then
        (case index_ints xs js of Inl e \<Rightarrow> Inl e | Inr r \<Rightarrow> Inr (xs ! nat j # r))
      else Inl IndexError)"

text \<open>Indexing by a boolean array: the array has to be as long as the indexed axis; the
  entries under a true are kept, in order.\<close>

definition index_bools :: "'a list \<Rightarrow> bool list \<Rightarrow> error + 'a list" where
  "index_bools xs bs =
     (if length bs \<noteq> length xs then Inl IndexError
      else Inr (map fst (filter snd (zip xs bs))))"

text \<open>\<open>mask.astype(npint).sum()\<close>\<close>

definition count_true :: "bool list \<Rightarrow> int" where
  "count_true bs = sum_list (map (\<lambda>b. if b then 1 else 0) bs)"

text \<open>The numbers \<open>dl_loader\<close> computes with: a Python integer, or a numpy float64 (its
  value).\<close>

datatype pynum = PyInt int | NpFloat rat

fun num_val :: "pynum \<Rightarrow> rat" where
  "num_val (PyInt i) = of_int i"
| "num_val (NpFloat q) = q"

text \<open>\<open>a - b\<close> and \<open>- a\<close>: an integer when every operand is one, a float otherwise.\<close>

fun num_sub :: "pynum \<Rightarrow> pynum \<Rightarrow> pynum" where
  "num_sub (PyInt a) (PyInt b) = PyInt (a - b)"
| "num_sub a b = NpFloat (num_val a - num_val b)"

fun num_neg :: "pynum \<Rightarrow> pynum" where
  "num_neg (PyInt a) = PyInt (- a)"
| "num_neg (NpFloat q) = NpFloat (- q)"

text \<open>A slice bound has to be an integer: numpy raises TypeError on a float64, whatever
  its value.\<close>

fun slice_bound :: "pynum option \<Rightarrow> error + int option" where
  "slice_bound None = Inr None"
| "slice_bound (Some (PyInt i)) = Inr (Some i)"
| "slice_bound (Some (NpFloat q)) = Inl TypeError"

definition getslice :: "'a list \<Rightarrow> pynum option \<Rightarrow> pynum option \<Rightarrow> error + 'a list" where
  "getslice xs start stop =
     (case slice_bound start of
        Inl err \<Rightarrow> Inl err
      | Inr lo \<Rightarrow>
          (case slice_bound stop of
             Inl err \<Rightarrow> Inl err
           | Inr hi \<Rightarrow> Inr (py_slice xs lo hi)))"

text \<open>Lines 249 to 251. A boundary from a two-file load is an integer. The fallback's
  \<open>round(tot_len / 1.8)\<close> is numpy's \<open>round\<close> of a float, a float64 of integer value, and
  so is \<open>test_len\<close>; the division is taken exactly (1.8 as 9/5).\<close>

definition split_lens :: "nat \<Rightarrow> int option \<Rightarrow> pynum \<times> pynum" where
  "split_lens tot_len train_len =
     (let train_len' = (case train_len of
                          None \<Rightarrow> NpFloat (of_int (np_round (of_nat tot_len / (9 / 5))))
                        | Some t \<Rightarrow> PyInt t);
          test_len = num_sub (PyInt (int tot_len)) train_len'
      in (train_len', test_len))"

text \<open>Lines 254 to 266, for the lengths of lines 249 to 251: the two index ranges, the two
  counts, and the cut of the epoched set by the mask. The result is what \<open>dl_loader\<close>
  hands to \<open>EEGDataset.from_epo_to_dataset\<close>: the cut set, \<open>new_train_len\<close> and
  \<open>new_test_len\<close>.\<close>

definition cut_ranges :: "epo \<Rightarrow> bool list \<Rightarrow> pynum \<Rightarrow> pynum \<Rightarrow> error + (epo \<times> int \<times> int)" where
  "cut_ranges e clean_trial_mask train_len test_len =
     (let tot_len = length (epo_y e);
          indexes = map int [0..<tot_len]
      in case getslice indexes (Some (PyInt 0)) (Some train_len) of
           Inl err \<Rightarrow> Inl err
         | Inr train_indexes \<Rightarrow>
             (case getslice indexes (Some (num_neg test_len)) None of
                Inl err \<Rightarrow> Inl err
              | Inr test_indexes \<Rightarrow>
                  (case index_ints clean_trial_mask train_indexes of
                     Inl err \<Rightarrow> Inl err
                   | Inr train_clean_trial_mask \<Rightarrow>
                       (case index_ints clean_trial_mask test_indexes of
                          Inl err \<Rightarrow> Inl err
                        | Inr test_clean_trial_mask \<Rightarrow>
                            (let new_train_len = count_true train_clean_trial_mask;
                                 new_test_len = count_true test_clean_trial_mask
                             in case index_bools (epo_X e) clean_trial_mask of
                                  Inl err \<Rightarrow> Inl err
                                | Inr X' \<Rightarrow>
                                    (case index_bools (epo_y e) clean_trial_mask of
                                       Inl err \<Rightarrow> Inl err
                                     | Inr y' \<Rightarrow>
                                         Inr (\<lparr>epo_X = X', epo_y = y'\<rparr>,
                                              new_train_len, new_test_len)))))))"

text \<open>Lines 244 to 266: the lengths, then the cut with them.\<close>

definition cut_epoched :: "epo \<Rightarrow> bool list \<Rightarrow> int option \<Rightarrow> error + (epo \<times> int \<times> int)" where
  "cut_epoched e clean_trial_mask train_len =
     (let tot_len = length (epo_y e);
          (train_len', test_len) = split_lens tot_len train_len
      in cut_ranges e clean_trial_mask train_len' test_len)"

text \<open>\<open>dl_loader\<close>; the dataset builder of \<open>hgdecode.classes\<close> is a parameter.\<close>

definition dl_loader ::
    "collaborators \<Rightarrow> (epo \<Rightarrow> int \<Rightarrow> int \<Rightarrow> rat \<Rightarrow> string + 'd) \<Rightarrow> string \<Rightarrow> start_codes
       \<Rightarrow> string list \<Rightarrow> int \<Rightarrow> rat option \<Rightarrow> ival_ms \<Rightarrow> ival_ms \<Rightarrow> bool \<Rightarrow> bool \<Rightarrow> rat
       \<Rightarrow> error + 'd" where
  "dl_loader env from_epo_to_dataset data_dir name_to_start_codes channel_names subject_id
       resampling_freq clean_ival_ms epoch_ival_ms train_test_split clean_on_all_channels
       validation_frac =
     (case load_and_preprocess_data env data_dir name_to_start_codes channel_names subject_id
              resampling_freq clean_ival_ms train_test_split clean_on_all_channels of
        Inl err \<Rightarrow> Inl err
      | Inr (c, clean_trial_mask, train_len) \<Rightarrow>
          (case external (create_signal_target_from_raw_mne env c name_to_start_codes
                            epoch_ival_ms) of
             Inl err \<Rightarrow> Inl err
           | Inr e \<Rightarrow>
               (case cut_epoched e clean_trial_mask train_len of
                  Inl err \<Rightarrow> Inl err
                | Inr (e', new_train_len, new_test_len) \<Rightarrow>
                    external (from_epo_to_dataset e' new_train_len new_test_len
                                validation_frac))))"

section \<open>Well-formed matrices, concrete recordings and collaborators\<close>

text \<open>A numpy matrix is rectangular: every channel holds one value per time sample.\<close>

definition rectangular :: "rat list list \<Rightarrow> bool" where
  "rectangular x = list_all (\<lambda>r. length r = n_samples x) x"

text \<open>Small recordings of two channels, and collaborators to run the pipeline on: a
  reader that knows subject 1 under \<open>data\<close> and honours the channel filter, a
  concatenation that shifts the onsets of the second recording, a segmenter that cuts one
  sample at every onset whose code is listed, a channel selection that keeps the named
  channels, and a resampler and a filter that keep the signal.\<close>

definition train_rec :: cnt where
  "train_rec = \<lparr>cnt_data = [[1, 2, 6, 4], [3, 5, 1, 0]], sfreq = 250,
                 ch_names = [''C3'', ''C4''], events = [(0, 1), (2, 2)]\<rparr>"

definition test_rec :: cnt where
  "test_rec = \<lparr>cnt_data = [[7, 900], [2, 1]], sfreq = 250,
                ch_names = [''C3'', ''C4''], events = [(1, 1)]\<rparr>"

definition other_test_rec :: cnt where
  "other_test_rec = \<lparr>cnt_data = [[0, 0, 0], [1, 1, 1]], sfreq = 250,
                      ch_names = [''C3'', ''C4''], events = [(0, 2), (1, 1), (2, 2)]\<rparr>"

definition silent_test_rec :: cnt where
  "silent_test_rec = \<lparr>cnt_data = [[800, 3], [- 2, 1]], sfreq = 250,
                       ch_names = [''C3'', ''C4''], events = []\<rparr>"

definition edge_rec :: cnt where
  "edge_rec = \<lparr>cnt_data = [[800, 3], [- 2, 1]], sfreq = 250,
                ch_names = [''C3'', ''C4''], events = [(0, 1)]\<rparr>"

definition mixed_rec :: cnt where
  "mixed_rec = \<lparr>cnt_data = [[900, 2, 6, 4], [3, 5, - 850, 0]], sfreq = 250,
                 ch_names = [''C3'', ''C4''], events = [(0, 1), (1, 2), (2, 1), (3, 2)]\<rparr>"

definition demo_codes :: start_codes where
  "demo_codes = [(''Right'', [1]), (''Left'', [2])]"

definition keep_channels :: "cnt \<Rightarrow> string list \<Rightarrow> cnt" where
  "keep_channels c names =
     (let kept = filter (\<lambda>i. ch_names c ! i \<in> set names) [0..<length (ch_names c)]
      in c\<lparr>cnt_data := map (\<lambda>i. cnt_data c ! i) kept,
            ch_names := map (\<lambda>i. ch_names c ! i) kept\<rparr>)"

definition demo_env :: "cnt \<Rightarrow> collaborators" where
  "demo_env test_file =
     \<lparr>BBCIDataset_load = (\<lambda>p sel.
          if p = ''data/train/1.mat'' then
            Inr (case sel of None \<Rightarrow> train_rec | Some names \<Rightarrow> keep_channels train_rec names)
          else if p = ''data/test/1.mat'' then
            Inr (case sel of None \<Rightarrow> test_file | Some names \<Rightarrow> keep_channels test_file names)
          else Inl ''no such file''),
      concatenate_raws_with_events = (\<lambda>cs.
          case cs of
            [a, b] \<Rightarrow> Inr \<lparr>cnt_data = map2 (@) (cnt_data a) (cnt_data b), sfreq = sfreq a,
                           ch_names = ch_names a,
                           events = events a
                             @ map (\<lambda>(s, k). (s + n_samples (cnt_data a), k)) (events b)\<rparr>
          | _ \<Rightarrow> Inl ''two recordings expected''),
      create_signal_target_from_raw_mne = (\<lambda>c codes ival.
          let onsets = filter (\<lambda>(s, k). k \<in> set (concat (map snd codes))) (events c)
          in Inr \<lparr>epo_X = map (\<lambda>(s, k). map (\<lambda>r. [r ! s]) (cnt_data c)) onsets,
                   epo_y = map snd onsets\<rparr>),
      pick_channels = (\<lambda>c names.
          if list_all (\<lambda>n. n \<in> set (ch_names c)) names then Inr (keep_channels c names)
          else Inl ''unknown channel''),
      resample_cnt = (\<lambda>c f. Inr (c\<lparr>sfreq := f\<rparr>)),
      bandpass_cnt = (\<lambda>x lo hi fs. Inr x)\<rparr>"

definition demo_builder :: "epo \<Rightarrow> int \<Rightarrow> int \<Rightarrow> rat \<Rightarrow> string + (epo \<times> int \<times> int)" where
  "demo_builder e train_len test_len validation_frac = Inr (e, train_len, test_len)"

section \<open>Auxiliary lemmas\<close>

lemma sum_list_shift:
  "(\<Sum>r\<leftarrow>xs. f r - (c::rat)) = (\<Sum>r\<leftarrow>xs. f r) - of_nat (length xs) * c"
  by (induction xs) (simp_all add: algebra_simps)

lemma length_mean_axis0: "length (mean_axis0 x) = n_samples x"
  by (simp add: mean_axis0_def)

lemma n_samples_subtract_mean:
  "rectangular x \<Longrightarrow> n_samples (subtract_mean x) = n_samples x"
  by (cases x) (simp_all add: subtract_mean_def n_samples_def rectangular_def length_mean_axis0)

lemma rectangular_subtract_mean:
  "rectangular x \<Longrightarrow> rectangular (subtract_mean x)"
  unfolding rectangular_def
  apply (simp add: n_samples_subtract_mean[unfolded rectangular_def])
  apply (simp add: subtract_mean_def list_all_iff length_mean_axis0)
  done

lemma mean_axis0_nth:
  "t < n_samples x \<Longrightarrow> mean_axis0 x ! t = (\<Sum>r\<leftarrow>x. r ! t) / of_nat (length x)"
  by (simp add: mean_axis0_def)

lemma column_sum_subtract_mean:
  assumes "rectangular x" "t < n_samples x"
  shows "(\<Sum>r\<leftarrow>subtract_mean x. r ! t) = (\<Sum>r\<leftarrow>x. r ! t - mean_axis0 x ! t)"
proof -
  have "map (\<lambda>r. r ! t) (subtract_mean x) = map (\<lambda>r. r ! t - mean_axis0 x ! t) x"
    using assms
    by (auto simp: subtract_mean_def rectangular_def list_all_iff length_mean_axis0)
  then show ?thesis by simp
qed

lemma mean_axis0_subtract_mean:
  assumes "rectangular x"
  shows "mean_axis0 (subtract_mean x) = replicate (n_samples x) 0"
proof (rule nth_equalityI)
  show "length (mean_axis0 (subtract_mean x)) = length (replicate (n_samples x) (0::rat))"
    using assms by (simp add: length_mean_axis0 n_samples_subtract_mean)
next
  fix t assume "t < length (mean_axis0 (subtract_mean x))"
  then have t: "t < n_samples x"
    using assms by (simp add: length_mean_axis0 n_samples_subtract_mean)
  then have ne: "x \<noteq> []" by (auto simp: n_samples_def)
  have "mean_axis0 (subtract_mean x) ! t
          = (\<Sum>r\<leftarrow>subtract_mean x. r ! t) / of_nat (length (subtract_mean x))"
    using t assms by (simp add: mean_axis0_nth n_samples_subtract_mean)
  also have "\<dots> = ((\<Sum>r\<leftarrow>x. r ! t) - of_nat (length x) * mean_axis0 x ! t) / of_nat (length x)"
  proof -
    have "length (subtract_mean x) = length x" by (simp add: subtract_mean_def)
    then show ?thesis
      using column_sum_subtract_mean[OF assms t] by (simp add: sum_list_shift)
  qed
  also have "\<dots> = 0"
    using ne t by (simp add: mean_axis0_nth)
  finally show "mean_axis0 (subtract_mean x) ! t = replicate (n_samples x) 0 ! t"
    using t by simp
qed

lemma map2_minus_zero: "length r = n \<Longrightarrow> map2 (-) r (replicate n (0::rat)) = r"
  by (induction r arbitrary: n) auto

lemma trial_peak_Inr:
  assumes "trial_peak t = Inr p"
  shows "p \<in> set (map abs (concat t)) \<and> list_all (\<lambda>v. \<bar>v\<bar> \<le> p) (concat t)"
proof -
  from assms have ne: "concat t \<noteq> []" and p: "p = Max (set (map abs (concat t)))"
    by (auto simp: trial_peak_def Let_def split: if_splits)
  have fin: "finite (set (map abs (concat t)))" by simp
  have nes: "set (map abs (concat t)) \<noteq> {}" using ne by simp
  have "p \<in> set (map abs (concat t))"
    unfolding p using fin nes by (rule Max_in)
  moreover have "list_all (\<lambda>v. \<bar>v\<bar> \<le> p) (concat t)"
    unfolding p list_all_iff using fin by (auto intro: Max_ge)
  ultimately show ?thesis by simp
qed

lemma trial_peaks_Inr:
  "trial_peaks X = Inr peaks \<Longrightarrow>
     length peaks = length X \<and> (\<forall>i<length X. trial_peak (X ! i) = Inr (peaks ! i))"
proof (induction X arbitrary: peaks)
  case Nil
  then show ?case by simp
next
  case (Cons t ts)
  from Cons.prems obtain p ps where
    p: "trial_peak t = Inr p" and ps: "trial_peaks ts = Inr ps" and eq: "peaks = p # ps"
    by (auto split: sum.splits)
  from Cons.IH[OF ps] have len: "length ps = length ts"
    and all: "\<forall>i<length ts. trial_peak (ts ! i) = Inr (ps ! i)" by simp_all
  show ?case
  proof (intro conjI allI impI)
    show "length peaks = length (t # ts)" using len eq by simp
  next
    fix i assume "i < length (t # ts)"
    then show "trial_peak ((t # ts) ! i) = Inr (peaks ! i)"
      using p all eq by (cases i) simp_all
  qed
qed

lemma max_abs_axis12_Inr:
  assumes "max_abs_axis12 X = Inr peaks"
  shows "length peaks = length X \<and> (\<forall>i<length X. trial_peak (X ! i) = Inr (peaks ! i))"
proof -
  from assms have "trial_peaks X = Inr peaks"
    by (simp add: max_abs_axis12_def split: if_splits)
  then show ?thesis by (rule trial_peaks_Inr)
qed

lemma trial_peaks_total:
  "list_all (\<lambda>t. concat t \<noteq> []) X \<Longrightarrow> \<exists>peaks. trial_peaks X = Inr peaks"
proof (induction X)
  case Nil
  then show ?case by simp
next
  case (Cons t ts)
  then obtain ps where "trial_peaks ts = Inr ps" by auto
  moreover from Cons.prems have "\<exists>p. trial_peak t = Inr p"
    by (simp add: trial_peak_def)
  ultimately show ?case by auto
qed

lemma trial_peaks_Inr_holds_values:
  "trial_peaks X = Inr peaks \<Longrightarrow> list_all (\<lambda>t. concat t \<noteq> []) X"
proof (induction X arbitrary: peaks)
  case Nil
  then show ?case by simp
next
  case (Cons t ts)
  from Cons.prems obtain p ps where
    p: "trial_peak t = Inr p" and ps: "trial_peaks ts = Inr ps"
    by (auto split: sum.splits)
  from p have "concat t \<noteq> []"
    by (auto simp: trial_peak_def Let_def split: if_splits)
  with Cons.IH[OF ps] show ?case by simp
qed

lemma max_abs_axis12_total:
  "X \<noteq> [] \<Longrightarrow> list_all (\<lambda>t. concat t \<noteq> []) X \<Longrightarrow> \<exists>peaks. max_abs_axis12 X = Inr peaks"
  by (simp add: max_abs_axis12_def trial_peaks_total)

lemma index_ints_range:
  "b \<le> length xs \<Longrightarrow> index_ints xs (map int [a..<b]) = Inr (take (b - a) (drop a xs))"
proof (induction "b - a" arbitrary: a)
  case 0
  then show ?case by simp
next
  case (Suc k)
  then have ab: "a < b" and k: "k = b - Suc a" by simp_all
  have "[a..<b] = a # [Suc a..<b]" using ab by (simp add: upt_rec)
  moreover have "index_ints xs (map int [Suc a..<b]) = Inr (take (b - Suc a) (drop (Suc a) xs))"
    using Suc.hyps(1)[OF k Suc.prems] .
  moreover have "take (b - a) (drop a xs) = xs ! a # take (b - Suc a) (drop (Suc a) xs)"
  proof -
    have "a < length xs" using ab Suc.prems by simp
    then have "drop a xs = xs ! a # drop (Suc a) xs" by (simp add: Cons_nth_drop_Suc)
    moreover have "b - a = Suc (b - Suc a)" using ab by simp
    ultimately show ?thesis by simp
  qed
  ultimately show ?case using ab Suc.prems by simp
qed

lemma py_slice_prefix:
  "0 \<le> k \<Longrightarrow> k \<le> int n \<Longrightarrow> py_slice (map int [0..<n]) (Some 0) (Some k) = map int [0..<nat k]"
  by (simp add: py_slice_def Let_def take_map min_def)

lemma py_slice_suffix:
  "0 < k \<Longrightarrow> k \<le> int n \<Longrightarrow>
     py_slice (map int [0..<n]) (Some (- k)) None = map int [nat (int n - k)..<n]"
  by (simp add: py_slice_def Let_def drop_map max_def)

lemma py_slice_minus_zero:
  "py_slice (map int [0..<n]) (Some (- 0)) None = map int [0..<n]"
  by (simp add: py_slice_def Let_def)

lemma length_filter_snd_zip:
  "length xs = length bs \<Longrightarrow> int (length (filter snd (zip xs bs))) = count_true bs"
  by (induction xs bs rule: list_induct2) (simp_all add: count_true_def)

lemma count_true_nonneg: "0 \<le> count_true bs"
  by (induction bs) (simp_all add: count_true_def)

lemma filter_zip_take_drop:
  assumes "length xs = length bs"
  shows "map fst (filter snd (zip xs bs))
           = map fst (filter snd (zip (take k xs) (take k bs)))
             @ map fst (filter snd (zip (drop k xs) (drop k bs)))"
proof -
  have "zip xs bs = zip (take k xs) (take k bs) @ zip (drop k xs) (drop k bs)"
    by (metis append_take_drop_id take_zip drop_zip)
  then show ?thesis by (metis filter_append map_append)
qed

lemma cut_epoched_Some:
  assumes lx: "length (epo_X e) = length (epo_y e)"
    and lm: "length msk = length (epo_y e)"
    and lo: "0 \<le> tlen" and hi: "tlen \<le> int (length (epo_y e))"
  shows "cut_epoched e msk (Some tlen) =
           Inr (\<lparr>epo_X = map fst (filter snd (zip (epo_X e) msk)),
                 epo_y = map fst (filter snd (zip (epo_y e) msk))\<rparr>,
                count_true (take (nat tlen) msk),
                if tlen = int (length (epo_y e)) then count_true msk
                else count_true (drop (nat tlen) msk))"
proof -
  let ?n = "length (epo_y e)"
  have sl: "split_lens ?n (Some tlen) = (PyInt tlen, PyInt (int ?n - tlen))"
    by (simp add: split_lens_def)
  have g1: "getslice (map int [0..<?n]) (Some (PyInt 0)) (Some (PyInt tlen))
              = Inr (py_slice (map int [0..<?n]) (Some 0) (Some tlen))"
    by (simp add: getslice_def)
  have g2: "getslice (map int [0..<?n]) (Some (num_neg (PyInt (int ?n - tlen)))) None
              = Inr (py_slice (map int [0..<?n]) (Some (- (int ?n - tlen))) None)"
    by (simp add: getslice_def)
  have tr: "py_slice (map int [0..<?n]) (Some 0) (Some tlen) = map int [0..<nat tlen]"
    using lo hi by (rule py_slice_prefix)
  have itr: "index_ints msk (map int [0..<nat tlen]) = Inr (take (nat tlen) msk)"
    using index_ints_range[of "nat tlen" msk 0] lo hi lm by simp
  have ite: "index_ints msk (py_slice (map int [0..<?n]) (Some (- (int ?n - tlen))) None)
               = Inr (if tlen = int ?n then msk else drop (nat tlen) msk)"
  proof (cases "tlen = int ?n")
    case True
    have "index_ints msk (map int [0..<?n]) = Inr msk"
      using index_ints_range[of ?n msk 0] lm by simp
    then show ?thesis using True py_slice_minus_zero[of ?n] by simp
  next
    case False
    then have pos: "0 < int ?n - tlen" using hi by simp
    have le: "int ?n - tlen \<le> int ?n" using lo by simp
    have "py_slice (map int [0..<?n]) (Some (- (int ?n - tlen))) None = map int [nat tlen..<?n]"
      using py_slice_suffix[OF pos le] by simp
    moreover have "index_ints msk (map int [nat tlen..<?n]) = Inr (drop (nat tlen) msk)"
      using index_ints_range[of ?n msk "nat tlen"] lm by simp
    ultimately show ?thesis using False by simp
  qed
  have bx: "index_bools (epo_X e) msk = Inr (map fst (filter snd (zip (epo_X e) msk)))"
    using lx lm by (simp add: index_bools_def)
  have by': "index_bools (epo_y e) msk = Inr (map fst (filter snd (zip (epo_y e) msk)))"
    using lm by (simp add: index_bools_def)
  show ?thesis
    unfolding cut_epoched_def cut_ranges_def Let_def sl prod.case g1 g2 sum.case tr itr ite
      bx by'
    by simp
qed

lemma cut_ranges_float: "cut_ranges e msk (NpFloat a) test_len = Inl TypeError"
  by (simp add: cut_ranges_def getslice_def Let_def)

lemma np_round_nearest: "\<bar>of_int (np_round q) - q\<bar> \<le> 1 / 2"
proof -
  define f where "f = \<lfloor>q\<rfloor>"
  have lo: "of_int f \<le> q" and hi: "q < of_int f + 1"
    unfolding f_def by linarith+
  have "np_round q = f \<or> np_round q = f + 1"
    and "np_round q = f \<longrightarrow> q - of_int f \<le> 1 / 2"
    and "np_round q = f + 1 \<longrightarrow> 1 / 2 \<le> q - of_int f"
    unfolding np_round_def Let_def f_def[symmetric] by auto
  with lo hi show ?thesis by (auto simp: abs_if)
qed

lemma round_fallback_nearest:
  "2 * \<bar>9 * np_round (of_nat n / (9 / 5)) - 5 * int n\<bar> < 9"
proof -
  let ?r = "np_round (of_nat n / (9 / 5))"
  have "\<bar>of_int ?r - (of_nat n / (9 / 5) :: rat)\<bar> \<le> 1 / 2"
    by (rule np_round_nearest)
  then have "\<bar>9 * of_int ?r - 5 * (of_nat n :: rat)\<bar> \<le> 9 / 2"
    by (simp add: abs_if field_simps split: if_splits)
  then have "(of_int (2 * \<bar>9 * ?r - 5 * int n\<bar>) :: rat) \<le> of_int 9"
    by (simp add: abs_if split: if_splits)
  then have "2 * \<bar>9 * ?r - 5 * int n\<bar> \<le> 9"
    by (simp only: of_int_le_iff)
  then show ?thesis by presburger
qed

lemma external_not_file_count: "external r \<noteq> Inl FileCountError"
  by (simp add: external_def split: sum.splits)

lemma load_cnt_not_file_count: "load_cnt env p names clean \<noteq> Inl FileCountError"
  by (simp add: load_cnt_def external_not_file_count)

lemma trial_peaks_not_file_count: "trial_peaks X \<noteq> Inl FileCountError"
  by (induction X) (auto simp: trial_peak_def Let_def split: sum.splits if_splits)

lemma max_abs_axis12_not_file_count: "max_abs_axis12 X \<noteq> Inl FileCountError"
  by (simp add: max_abs_axis12_def trial_peaks_not_file_count)

lemma get_clean_trial_mask_not_file_count:
  "get_clean_trial_mask env c codes ival \<noteq> Inl FileCountError"
  by (auto simp: get_clean_trial_mask_def external_not_file_count
        max_abs_axis12_not_file_count split: sum.splits)

lemma mne_apply_not_file_count:
  assumes "func (cnt_data raw) \<noteq> Inl FileCountError"
  shows "mne_apply func raw \<noteq> Inl FileCountError"
  using assms by (auto simp: mne_apply_def split: sum.splits)

lemma standardize_cnt_not_file_count: "standardize_cnt env c \<noteq> Inl FileCountError"
  by (auto simp: standardize_cnt_def Let_def mne_apply_not_file_count
        external_not_file_count split: sum.splits)

lemma preprocess_loaded_not_file_count:
  "preprocess_loaded env c codes names rf ival \<noteq> Inl FileCountError"
  by (auto simp: preprocess_loaded_def pick_right_channels_def
        get_clean_trial_mask_not_file_count external_not_file_count
        standardize_cnt_not_file_count split: sum.splits option.splits)

lemma load_files_file_count:
  "(load_files env file_paths names clean = Inl FileCountError)
     = (length file_paths \<noteq> 1 \<and> length file_paths \<noteq> 2)"
  by (auto simp: load_files_def Let_def load_cnt_not_file_count external_not_file_count
        split: sum.splits)

lemma length_get_data_files_paths:
  "length (get_data_files_paths data_dir subject_id train_test_split)
     = (if train_test_split then 2 else 1)"
  by (simp add: get_data_files_paths_def Let_def)

lemma load_and_preprocess_paths_Inr:
  assumes "load_and_preprocess_paths env ps codes names rf ival clean = Inr (c', m, train_len)"
  shows "\<exists>raw. load_files env ps names clean = Inr (raw, train_len)
              \<and> preprocess_loaded env raw codes names rf ival = Inr (c', m)"
  using assms
  by (auto simp: load_and_preprocess_paths_def split: sum.splits prod.splits)

lemma load_files_reads_with_filter:
  assumes "load_files env ps names clean = Inr (raw, train_len)"
  shows "list_all (\<lambda>p. \<exists>c. BBCIDataset_load env p (if clean then None else Some names) = Inr c)
           ps"
proof -
  have one: "\<exists>c. BBCIDataset_load env p (if clean then None else Some names) = Inr c"
    if "load_cnt env p names clean = Inr c'" for p c'
    using that by (auto simp: load_cnt_def external_def split: sum.splits if_splits)
  show ?thesis
  proof (cases "length ps = 1")
    case True
    then obtain p where ps: "ps = [p]" by (cases ps) auto
    with assms obtain c' where "load_cnt env p names clean = Inr c'"
      by (auto simp: load_files_def split: sum.splits)
    with one ps show ?thesis by simp
  next
    case False
    with assms have "length ps = 2"
      by (auto simp: load_files_def split: if_splits)
    then obtain p q where ps: "ps = [p, q]"
      by (cases ps; cases "tl ps") auto
    with assms obtain c' c'' where
      "load_cnt env p names clean = Inr c'" "load_cnt env q names clean = Inr c''"
      by (auto simp: load_files_def Let_def split: sum.splits)
    with one ps show ?thesis by simp
  qed
qed

lemma load_files_single:
  assumes "length ps = 1" "load_files env ps names clean = Inr (raw, train_len)"
  shows "train_len = None"
  using assms by (auto simp: load_files_def split: sum.splits)

lemma load_files_pair:
  assumes "load_files env [p, q] names clean = Inr (raw, train_len)"
  shows "\<exists>train_cnt. load_cnt env p names clean = Inr train_cnt
           \<and> train_len = Some (int (length (events train_cnt)))"
  using assms by (auto simp: load_files_def Let_def split: sum.splits)

section \<open>Theorems\<close>

text \<open>
  C1, at the input where the code departs from it. With three trials, the mask
  \<open>[True, False, True]\<close> and a train length equal to the total, the test range
  \<open>[train_len, total)\<close> is empty and holds no valid trial, but \<open>test_len\<close> is 0 and
  \<open>indexes[-0:]\<close> is the whole index array: \<open>new_test_len\<close> counts every valid trial, 2.
  The same happens in \<open>dl_loader\<close> on a two-file load whose test recording has no event.
\<close>

theorem empty_test_range_counts_all_trials:
  "cut_epoched \<lparr>epo_X = [[[1]], [[2]], [[3]]], epo_y = [0, 1, 2]\<rparr> [True, False, True] (Some 3)
     = Inr (\<lparr>epo_X = [[[1]], [[3]]], epo_y = [0, 2]\<rparr>, 2, 2)
   \<and> count_true (drop 3 [True, False, True]) = 0
   \<and> dl_loader (demo_env silent_test_rec) demo_builder ''data'' demo_codes [''C3'', ''C4''] 1
        None (0, 4000) (- 500, 4000) True True (1 / 5)
     = Inr (\<lparr>epo_X = [[[- 1], [1]], [[5 / 2], [- (5 / 2)]]], epo_y = [1, 2]\<rparr>, 2, 2)"
  by code_simp

text \<open>
  C2. For an epoched set of as many trials as labels, a mask of that length and a train
  length between 0 and the total, the cut returns, and in what it returns the first
  \<open>new_train_len\<close> entries of the globally filtered trials (and labels) are the train-range
  trials filtered by the mask restricted to that range, and the remaining entries are the
  test-range trials filtered by the rest of the mask.
\<close>

theorem filtered_prefix_is_valid_train:
  assumes lx: "length (epo_X e) = length (epo_y e)"
    and lm: "length msk = length (epo_y e)"
    and lo: "0 \<le> train_len" and hi: "train_len \<le> int (length (epo_y e))"
  shows "\<exists>e' new_train_len new_test_len.
           cut_epoched e msk (Some train_len) = Inr (e', new_train_len, new_test_len)
         \<and> index_bools (epo_X e) msk = Inr (epo_X e')
         \<and> index_bools (epo_y e) msk = Inr (epo_y e')
         \<and> new_train_len = count_true (take (nat train_len) msk)
         \<and> index_bools (take (nat train_len) (epo_X e)) (take (nat train_len) msk)
             = Inr (take (nat new_train_len) (epo_X e'))
         \<and> index_bools (drop (nat train_len) (epo_X e)) (drop (nat train_len) msk)
             = Inr (drop (nat new_train_len) (epo_X e'))
         \<and> index_bools (take (nat train_len) (epo_y e)) (take (nat train_len) msk)
             = Inr (take (nat new_train_len) (epo_y e'))
         \<and> index_bools (drop (nat train_len) (epo_y e)) (drop (nat train_len) msk)
             = Inr (drop (nat new_train_len) (epo_y e'))"
proof -
  let ?k = "nat train_len"
  let ?ntr = "count_true (take ?k msk)"
  have split: "\<And>xs :: 'b list. length xs = length msk \<Longrightarrow>
      index_bools xs msk = Inr (map fst (filter snd (zip xs msk)))
    \<and> index_bools (take ?k xs) (take ?k msk)
        = Inr (take (nat ?ntr) (map fst (filter snd (zip xs msk))))
    \<and> index_bools (drop ?k xs) (drop ?k msk)
        = Inr (drop (nat ?ntr) (map fst (filter snd (zip xs msk))))"
  proof -
    fix xs :: "'b list" assume len: "length xs = length msk"
    let ?a = "map fst (filter snd (zip (take ?k xs) (take ?k msk)))"
    let ?b = "map fst (filter snd (zip (drop ?k xs) (drop ?k msk)))"
    have ab: "map fst (filter snd (zip xs msk)) = ?a @ ?b"
      using len by (rule filter_zip_take_drop)
    have "int (length (filter snd (zip (take ?k xs) (take ?k msk)))) = ?ntr"
      using len by (intro length_filter_snd_zip) simp
    then have la: "length ?a = nat ?ntr" by simp
    have i1: "index_bools xs msk = Inr (map fst (filter snd (zip xs msk)))"
      using len by (simp add: index_bools_def)
    have i2: "index_bools (take ?k xs) (take ?k msk) = Inr ?a"
      using len by (simp add: index_bools_def)
    have i3: "index_bools (drop ?k xs) (drop ?k msk) = Inr ?b"
      using len by (simp add: index_bools_def)
    have t: "take (nat ?ntr) (?a @ ?b) = ?a" and d: "drop (nat ?ntr) (?a @ ?b) = ?b"
      using la by simp_all
    show "index_bools xs msk = Inr (map fst (filter snd (zip xs msk)))
        \<and> index_bools (take ?k xs) (take ?k msk)
            = Inr (take (nat ?ntr) (map fst (filter snd (zip xs msk))))
        \<and> index_bools (drop ?k xs) (drop ?k msk)
            = Inr (drop (nat ?ntr) (map fst (filter snd (zip xs msk))))"
      using i1 i2 i3 t d by (simp only: ab simp_thms)
  qed
  have lxm: "length (epo_X e) = length msk" and lym: "length (epo_y e) = length msk"
    using lx lm by simp_all
  show ?thesis
    using cut_epoched_Some[OF lx lm lo hi] split[OF lxm] split[OF lym] by simp
qed

theorem filtered_prefix_is_valid_train_witness:
  "length (epo_X \<lparr>epo_X = [[[1]], [[2]], [[3]], [[4]]], epo_y = [10, 11, 12, 13]\<rparr>)
     = length (epo_y \<lparr>epo_X = [[[1]], [[2]], [[3]], [[4]]], epo_y = [10, 11, 12, 13]\<rparr>)
   \<and> cut_epoched \<lparr>epo_X = [[[1]], [[2]], [[3]], [[4]]], epo_y = [10, 11, 12, 13]\<rparr>
        [True, False, True, True] (Some 2)
      = Inr (\<lparr>epo_X = [[[1]], [[3]], [[4]]], epo_y = [10, 12, 13]\<rparr>, 1, 2)
   \<and> index_bools (take 2 [10, 11, 12, 13 :: int]) (take 2 [True, False, True, True])
      = Inr (take 1 [10, 12, 13])
   \<and> index_bools (drop 2 [10, 11, 12, 13 :: int]) (drop 2 [True, False, True, True])
      = Inr (drop 1 [10, 12, 13])"
proof -
  let ?e = "\<lparr>epo_X = [[[1]], [[2]], [[3]], [[4]]], epo_y = [10, 11, 12, 13]\<rparr>"
  let ?m = "[True, False, True, True]"
  have lx: "length (epo_X ?e) = length (epo_y ?e)" by simp
  have lm: "length ?m = length (epo_y ?e)" by simp
  have lo: "(0::int) \<le> 2" by simp
  have hi: "2 \<le> int (length (epo_y ?e))" by simp
  have run: "cut_epoched ?e ?m (Some 2)
               = Inr (\<lparr>epo_X = [[[1]], [[3]], [[4]]], epo_y = [10, 12, 13]\<rparr>, 1, 2)"
    by code_simp
  from filtered_prefix_is_valid_train[OF lx lm lo hi] run lx show ?thesis
    by (simp add: numeral_2_eq_2)
qed

text \<open>
  C3. Whenever \<open>load_and_preprocess_data\<close> returns from a single-file load
  (\<open>train_test_split\<close> false), the split boundary it returns is \<open>None\<close>. For the set
  \<open>dl_loader\<close> then epochs, of any number \<open>total\<close> of trials, the fallback of lines 249 to
  251 sets \<open>train_len\<close> to \<open>round(total / 1.8)\<close>, the integer within one half of
  \<open>total / 1.8\<close> (that is \<open>2 * |9 * train_len - 5 * total| < 9\<close>), and \<open>test_len\<close> to
  \<open>total - train_len\<close>, so the two add up to the total. Both are float64 values, and they
  are the lengths \<open>dl_loader\<close> goes on with: the slice of line 255 refuses the float bound,
  and the call ends in TypeError.
\<close>

theorem single_file_split:
  assumes run: "load_and_preprocess_data env data_dir codes names subject_id rf ival False clean
                  = Inr (c, m, train_len)"
    and seg: "create_signal_target_from_raw_mne env c codes epoch_ival = Inr e"
  shows "train_len = None
         \<and> (\<exists>tr te.
               split_lens (length (epo_y e)) train_len = (NpFloat (of_int tr), NpFloat (of_int te))
             \<and> tr = np_round (of_nat (length (epo_y e)) / (9 / 5))
             \<and> 2 * \<bar>9 * tr - 5 * int (length (epo_y e))\<bar> < 9
             \<and> te = int (length (epo_y e)) - tr
             \<and> tr + te = int (length (epo_y e))
             \<and> cut_epoched e m train_len
                 = cut_ranges e m (NpFloat (of_int tr)) (NpFloat (of_int te))
             \<and> dl_loader env builder data_dir codes names subject_id rf ival epoch_ival False
                   clean validation_frac
                 = Inl TypeError)"
proof -
  let ?n = "length (epo_y e)"
  let ?tr = "np_round (of_nat ?n / (9 / 5))"
  let ?te = "int ?n - ?tr"
  from run obtain raw where
    "load_files env (get_data_files_paths data_dir subject_id False) names clean
       = Inr (raw, train_len)"
    unfolding load_and_preprocess_data_def by (blast dest: load_and_preprocess_paths_Inr)
  moreover have "length (get_data_files_paths data_dir subject_id False) = 1"
    by (simp add: get_data_files_paths_def Let_def)
  ultimately have none: "train_len = None" by (blast dest: load_files_single)
  have sl: "split_lens ?n train_len = (NpFloat (of_int ?tr), NpFloat (of_int ?te))"
    unfolding none by (simp add: split_lens_def Let_def)
  have near: "2 * \<bar>9 * ?tr - 5 * int ?n\<bar> < 9"
    by (rule round_fallback_nearest)
  have cut: "cut_epoched e m train_len
               = cut_ranges e m (NpFloat (of_int ?tr)) (NpFloat (of_int ?te))"
    unfolding cut_epoched_def Let_def sl by simp
  have "dl_loader env builder data_dir codes names subject_id rf ival epoch_ival False clean
            validation_frac
          = Inl TypeError"
    unfolding dl_loader_def run
    by (simp add: seg external_def cut cut_ranges_float)
  with none sl near cut show ?thesis by auto
qed

theorem single_file_split_witness:
  "load_and_preprocess_data (demo_env test_rec) ''data'' demo_codes [''C3'', ''C4''] 1 (Some 100)
       (0, 4000) False True
     = Inr (\<lparr>cnt_data = [[- 1, - (3 / 2), 5 / 2, 2], [1, 3 / 2, - (5 / 2), - 2]],
             sfreq = 100, ch_names = [''C3'', ''C4''], events = [(0, 1), (2, 2)]\<rparr>,
            [True, True], None)
   \<and> create_signal_target_from_raw_mne (demo_env test_rec)
       \<lparr>cnt_data = [[- 1, - (3 / 2), 5 / 2, 2], [1, 3 / 2, - (5 / 2), - 2]],
         sfreq = 100, ch_names = [''C3'', ''C4''], events = [(0, 1), (2, 2)]\<rparr>
       demo_codes (- 500, 4000)
     = Inr \<lparr>epo_X = [[[- 1], [1]], [[5 / 2], [- (5 / 2)]]], epo_y = [1, 2]\<rparr>
   \<and> split_lens 2 None = (NpFloat 1, NpFloat 1)
   \<and> dl_loader (demo_env test_rec) demo_builder ''data'' demo_codes [''C3'', ''C4''] 1
       (Some 100) (0, 4000) (- 500, 4000) False True (1 / 5)
     = Inl TypeError"
proof -
  let ?c = "\<lparr>cnt_data = [[- 1, - (3 / 2), 5 / 2, 2], [1, 3 / 2, - (5 / 2), - 2]],
              sfreq = 100, ch_names = [''C3'', ''C4''], events = [(0, 1), (2, 2)]\<rparr>"
  let ?e = "\<lparr>epo_X = [[[- 1], [1]], [[5 / 2], [- (5 / 2)]]], epo_y = [1, 2]\<rparr>"
  have run: "load_and_preprocess_data (demo_env test_rec) ''data'' demo_codes [''C3'', ''C4''] 1
                 (Some 100) (0, 4000) False True
               = Inr (?c, [True, True], None)"
    by code_simp
  have seg: "create_signal_target_from_raw_mne (demo_env test_rec) ?c demo_codes (- 500, 4000)
               = Inr ?e"
    by code_simp
  from single_file_split[OF run seg, of demo_builder "1 / 5"] obtain tr te where
    sl: "split_lens (length (epo_y ?e)) None = (NpFloat (of_int tr), NpFloat (of_int te))"
    and near: "2 * \<bar>9 * tr - 5 * int (length (epo_y ?e))\<bar> < 9"
    and sum: "tr + te = int (length (epo_y ?e))"
    and dl: "dl_loader (demo_env test_rec) demo_builder ''data'' demo_codes [''C3'', ''C4''] 1
               (Some 100) (0, 4000) (- 500, 4000) False True (1 / 5) = Inl TypeError"
    by blast
  from near have "tr = 1" by (simp add: abs_if split: if_splits)
  with sum have "te = 1" by simp
  with sl \<open>tr = 1\<close> have "split_lens 2 None = (NpFloat 1, NpFloat 1)"
    by (simp add: numeral_2_eq_2)
  with run seg dl show ?thesis by simp
qed

text \<open>
  C4. Whenever \<open>load_and_preprocess_data\<close> returns from a two-file load, the split
  boundary is the number of event markers of the train recording as the reader returned it,
  before the concatenation. It does not depend on the test file: a second run whose reader
  agrees on the train file only (and whose other collaborators, code map, window and
  resampling may differ) returns the same boundary.
\<close>

theorem two_file_boundary:
  assumes run: "load_and_preprocess_data env data_dir codes names subject_id rf ival True clean
                  = Inr (c, m, train_len)"
    and run': "load_and_preprocess_data env' data_dir codes' names subject_id rf' ival' True clean
                  = Inr (c', m', train_len')"
    and same: "BBCIDataset_load env' (join data_dir [''train'', format_d subject_id @ ''.mat''])
                 = BBCIDataset_load env (join data_dir [''train'', format_d subject_id @ ''.mat''])"
  shows "\<exists>train_cnt.
           load_cnt env (join data_dir [''train'', format_d subject_id @ ''.mat'']) names clean
             = Inr train_cnt
         \<and> train_len = Some (int (length (events train_cnt)))
         \<and> train_len' = train_len"
proof -
  let ?p = "join data_dir [''train'', format_d subject_id @ ''.mat'']"
  let ?q = "join data_dir [''test'', format_d subject_id @ ''.mat'']"
  have paths: "get_data_files_paths data_dir subject_id True = [?p, ?q]"
    by (simp add: get_data_files_paths_def Let_def)
  from run obtain raw where "load_files env [?p, ?q] names clean = Inr (raw, train_len)"
    unfolding load_and_preprocess_data_def paths by (blast dest: load_and_preprocess_paths_Inr)
  then obtain train_cnt where
    t: "load_cnt env ?p names clean = Inr train_cnt"
    and l: "train_len = Some (int (length (events train_cnt)))"
    by (blast dest: load_files_pair)
  from run' obtain raw' where "load_files env' [?p, ?q] names clean = Inr (raw', train_len')"
    unfolding load_and_preprocess_data_def paths by (blast dest: load_and_preprocess_paths_Inr)
  then obtain train_cnt' where
    t': "load_cnt env' ?p names clean = Inr train_cnt'"
    and l': "train_len' = Some (int (length (events train_cnt')))"
    by (blast dest: load_files_pair)
  have "load_cnt env' ?p names clean = load_cnt env ?p names clean"
    using same by (simp add: load_cnt_def)
  with t t' have "train_cnt' = train_cnt" by simp
  with t l l' show ?thesis by simp
qed

theorem two_file_boundary_witness:
  "load_and_preprocess_data (demo_env test_rec) ''data'' demo_codes [''C3'', ''C4''] 1 None
       (0, 4000) True True
     = Inr (\<lparr>cnt_data = [[- 1, - (3 / 2), 5 / 2, 2, 5 / 2, 899 / 2],
                          [1, 3 / 2, - (5 / 2), - 2, - (5 / 2), - (899 / 2)]],
             sfreq = 250, ch_names = [''C3'', ''C4''],
             events = [(0, 1), (2, 2), (5, 1)]\<rparr>,
            [True, True, False], Some 2)
   \<and> load_and_preprocess_data (demo_env other_test_rec) ''data'' demo_codes [''C3'', ''C4''] 1
       None (0, 4000) True True
     = Inr (\<lparr>cnt_data = [[- 1, - (3 / 2), 5 / 2, 2, - (1 / 2), - (1 / 2), - (1 / 2)],
                          [1, 3 / 2, - (5 / 2), - 2, 1 / 2, 1 / 2, 1 / 2]],
             sfreq = 250, ch_names = [''C3'', ''C4''],
             events = [(0, 1), (2, 2), (4, 2), (5, 1), (6, 2)]\<rparr>,
            [True, True, True, True, True], Some 2)
   \<and> (\<exists>train_cnt.
         load_cnt (demo_env test_rec) (join ''data'' [''train'', format_d 1 @ ''.mat''])
           [''C3'', ''C4''] True = Inr train_cnt
       \<and> Some 2 = Some (int (length (events train_cnt)))
       \<and> Some (2 :: int) = Some 2)"
proof -
  have run: "load_and_preprocess_data (demo_env test_rec) ''data'' demo_codes [''C3'', ''C4''] 1
                 None (0, 4000) True True
     = Inr (\<lparr>cnt_data = [[- 1, - (3 / 2), 5 / 2, 2, 5 / 2, 899 / 2],
                          [1, 3 / 2, - (5 / 2), - 2, - (5 / 2), - (899 / 2)]],
             sfreq = 250, ch_names = [''C3'', ''C4''],
             events = [(0, 1), (2, 2), (5, 1)]\<rparr>,
            [True, True, False], Some 2)"
    by code_simp
  have run': "load_and_preprocess_data (demo_env other_test_rec) ''data'' demo_codes
                 [''C3'', ''C4''] 1 None (0, 4000) True True
     = Inr (\<lparr>cnt_data = [[- 1, - (3 / 2), 5 / 2, 2, - (1 / 2), - (1 / 2), - (1 / 2)],
                          [1, 3 / 2, - (5 / 2), - 2, 1 / 2, 1 / 2, 1 / 2]],
             sfreq = 250, ch_names = [''C3'', ''C4''],
             events = [(0, 1), (2, 2), (4, 2), (5, 1), (6, 2)]\<rparr>,
            [True, True, True, True, True], Some 2)"
    by code_simp
  have same: "BBCIDataset_load (demo_env other_test_rec)
                  (join ''data'' [''train'', format_d 1 @ ''.mat''])
                = BBCIDataset_load (demo_env test_rec)
                  (join ''data'' [''train'', format_d 1 @ ''.mat''])"
  proof -
    have p: "join ''data'' [''train'', format_d 1 @ ''.mat''] = ''data/train/1.mat''"
      by code_simp
    show ?thesis unfolding p by (simp add: demo_env_def)
  qed
  show ?thesis
    by (intro conjI) (rule run, rule run', rule two_file_boundary[OF run run' same])
qed

text \<open>
  C5 as stated fails at the boundary: a trial whose peak is exactly 800 does not exceed
  the threshold, and the mask flags it invalid.
\<close>

theorem clean_trial_mask_at_threshold:
  "create_signal_target_from_raw_mne (demo_env test_rec) edge_rec demo_codes (0, 4000)
     = Inr \<lparr>epo_X = [[[800], [- 2]]], epo_y = [1]\<rparr>
   \<and> trial_peak [[800], [- 2]] = Inr 800
   \<and> get_clean_trial_mask (demo_env test_rec) edge_rec demo_codes (0, 4000) = Inr [False]
   \<and> \<not> (800 :: rat) > 800"
  by code_simp

text \<open>
  C5 (amended). Whatever the recording, code map and window, entry \<open>i\<close> of the mask of
  \<open>get_clean_trial_mask\<close> is \<open>peak < 800\<close>, where \<open>peak\<close> is the largest absolute value
  over all channels and samples of trial \<open>i\<close>; so a trial is flagged invalid exactly when
  its peak is at least 800 (it reaches or exceeds the threshold). The threshold is the
  constant 800: the function has no argument for it.
\<close>

theorem clean_trial_mask_threshold:
  assumes seg: "create_signal_target_from_raw_mne env c codes ival = Inr s"
    and run: "get_clean_trial_mask env c codes ival = Inr msk"
    and i: "i < length (epo_X s)"
  shows "\<exists>p. trial_peak (epo_X s ! i) = Inr p
            \<and> p \<in> set (map abs (concat (epo_X s ! i)))
            \<and> list_all (\<lambda>v. \<bar>v\<bar> \<le> p) (concat (epo_X s ! i))
            \<and> msk ! i = (p < 800)
            \<and> (\<not> msk ! i) = (800 \<le> p)"
proof -
  from seg run obtain peaks where
    pk: "max_abs_axis12 (epo_X s) = Inr peaks" and m: "msk = map (\<lambda>p. p < 800) peaks"
    by (auto simp: get_clean_trial_mask_def external_def split: sum.splits)
  from max_abs_axis12_Inr[OF pk] i have
    len: "length peaks = length (epo_X s)" and p: "trial_peak (epo_X s ! i) = Inr (peaks ! i)"
    by simp_all
  have "msk ! i = (peaks ! i < 800)" using m len i by simp
  with p trial_peak_Inr[OF p] show ?thesis by (auto simp: not_less)
qed

theorem clean_trial_mask_threshold_witness:
  "create_signal_target_from_raw_mne (demo_env test_rec) edge_rec demo_codes (0, 4000)
     = Inr \<lparr>epo_X = [[[800], [- 2]]], epo_y = [1]\<rparr>
   \<and> get_clean_trial_mask (demo_env test_rec) edge_rec demo_codes (0, 4000) = Inr [False]
   \<and> (\<exists>p. trial_peak [[800], [- 2]] = Inr p
          \<and> p \<in> set (map abs (concat [[800], [- 2]]))
          \<and> list_all (\<lambda>v. \<bar>v\<bar> \<le> p) (concat [[800], [- 2]])
          \<and> [False] ! 0 = (p < 800)
          \<and> (\<not> [False] ! 0) = (800 \<le> p))"
proof -
  have seg: "create_signal_target_from_raw_mne (demo_env test_rec) edge_rec demo_codes (0, 4000)
               = Inr \<lparr>epo_X = [[[800], [- 2]]], epo_y = [1]\<rparr>"
    by code_simp
  have run: "get_clean_trial_mask (demo_env test_rec) edge_rec demo_codes (0, 4000) = Inr [False]"
    by code_simp
  have i: "0 < length (epo_X \<lparr>epo_X = [[[800], [- 2]]], epo_y = [1]\<rparr>)" by simp
  from clean_trial_mask_threshold[OF seg run i] seg run show ?thesis by simp
qed

text \<open>
  C6 as stated fails when \<open>clean_on_all_channels\<close> is false: the recording is then loaded
  with the named channels only, and the mask is computed on those. Here the peak of 900 is
  on channel C3; with \<open>channel_names = [C4]\<close> the third trial passes the mask, while on the
  all-channel recording it does not.
\<close>

theorem mask_on_named_channels_only:
  "load_and_preprocess_data (demo_env test_rec) ''data'' demo_codes [''C4''] 1 None (0, 4000)
       True False
     = Inr (\<lparr>cnt_data = [[0, 0, 0, 0, 0, 0]], sfreq = 250, ch_names = [''C4''],
             events = [(0, 1), (2, 2), (5, 1)]\<rparr>,
            [True, True, True], Some 2)
   \<and> load_files (demo_env test_rec) (get_data_files_paths ''data'' 1 True) [''C4''] True
     = Inr (\<lparr>cnt_data = [[1, 2, 6, 4, 7, 900], [3, 5, 1, 0, 2, 1]], sfreq = 250,
             ch_names = [''C3'', ''C4''], events = [(0, 1), (2, 2), (5, 1)]\<rparr>, Some 2)
   \<and> get_clean_trial_mask (demo_env test_rec)
        \<lparr>cnt_data = [[1, 2, 6, 4, 7, 900], [3, 5, 1, 0, 2, 1]], sfreq = 250,
          ch_names = [''C3'', ''C4''], events = [(0, 1), (2, 2), (5, 1)]\<rparr> demo_codes (0, 4000)
     = Inr [True, True, False]"
  by code_simp

text \<open>
  C6 (amended). Whenever \<open>load_and_preprocess_data\<close> returns, its results come from the
  stages in this order: the files are loaded (and merged), which fixes the split boundary,
  every file read with all channels when \<open>clean_on_all_channels\<close> is true and with the
  named channels only when it is false; the mask is computed on that loaded recording,
  before any other stage has touched it; the channels are picked from the loaded recording;
  the picked recording is resampled when a frequency is given; and the recording returned
  is the standardized (mean-subtracted, band-passed) one.
\<close>

theorem pipeline_stage_order:
  assumes run: "load_and_preprocess_data env data_dir codes names subject_id rf ival
                  train_test_split clean = Inr (c', m, train_len)"
  shows "\<exists>raw picked resampled.
           load_files env (get_data_files_paths data_dir subject_id train_test_split) names clean
             = Inr (raw, train_len)
         \<and> list_all
             (\<lambda>p. \<exists>c. BBCIDataset_load env p (if clean then None else Some names) = Inr c)
             (get_data_files_paths data_dir subject_id train_test_split)
         \<and> get_clean_trial_mask env raw codes ival = Inr m
         \<and> pick_right_channels env raw names = Inr picked
         \<and> (case rf of None \<Rightarrow> Inr picked | Some f \<Rightarrow> external (resample_cnt env picked f))
             = Inr resampled
         \<and> standardize_cnt env resampled = Inr c'"
proof -
  from run obtain raw where
    ld: "load_files env (get_data_files_paths data_dir subject_id train_test_split) names clean
           = Inr (raw, train_len)"
    and pp: "preprocess_loaded env raw codes names rf ival = Inr (c', m)"
    unfolding load_and_preprocess_data_def by (blast dest: load_and_preprocess_paths_Inr)
  note rd = load_files_reads_with_filter[OF ld]
  from pp obtain picked resampled where
    "get_clean_trial_mask env raw codes ival = Inr m"
    "pick_right_channels env raw names = Inr picked"
    "(case rf of None \<Rightarrow> Inr picked | Some f \<Rightarrow> external (resample_cnt env picked f))
       = Inr resampled"
    "standardize_cnt env resampled = Inr c'"
    by (auto simp: preprocess_loaded_def split: sum.splits)
  with ld rd show ?thesis by blast
qed

theorem pipeline_stage_order_witness:
  "load_and_preprocess_data (demo_env test_rec) ''data'' demo_codes [''C3'', ''C4''] 1 (Some 100)
       (0, 4000) True True
     = Inr (\<lparr>cnt_data = [[- 1, - (3 / 2), 5 / 2, 2, 5 / 2, 899 / 2],
                          [1, 3 / 2, - (5 / 2), - 2, - (5 / 2), - (899 / 2)]],
             sfreq = 100, ch_names = [''C3'', ''C4''],
             events = [(0, 1), (2, 2), (5, 1)]\<rparr>,
            [True, True, False], Some 2)
   \<and> (\<exists>raw picked resampled.
         load_files (demo_env test_rec) (get_data_files_paths ''data'' 1 True) [''C3'', ''C4'']
           True = Inr (raw, Some 2)
       \<and> list_all
           (\<lambda>p. \<exists>c. BBCIDataset_load (demo_env test_rec) p
                        (if True then None else Some [''C3'', ''C4'']) = Inr c)
           (get_data_files_paths ''data'' 1 True)
       \<and> get_clean_trial_mask (demo_env test_rec) raw demo_codes (0, 4000)
           = Inr [True, True, False]
       \<and> pick_right_channels (demo_env test_rec) raw [''C3'', ''C4''] = Inr picked
       \<and> (case Some 100 of None \<Rightarrow> Inr picked
           | Some f \<Rightarrow> external (resample_cnt (demo_env test_rec) picked f)) = Inr resampled
       \<and> standardize_cnt (demo_env test_rec) resampled
           = Inr \<lparr>cnt_data = [[- 1, - (3 / 2), 5 / 2, 2, 5 / 2, 899 / 2],
                              [1, 3 / 2, - (5 / 2), - 2, - (5 / 2), - (899 / 2)]],
                  sfreq = 100, ch_names = [''C3'', ''C4''],
                  events = [(0, 1), (2, 2), (5, 1)]\<rparr>)"
proof -
  have run: "load_and_preprocess_data (demo_env test_rec) ''data'' demo_codes [''C3'', ''C4''] 1
                 (Some 100) (0, 4000) True True
     = Inr (\<lparr>cnt_data = [[- 1, - (3 / 2), 5 / 2, 2, 5 / 2, 899 / 2],
                          [1, 3 / 2, - (5 / 2), - 2, - (5 / 2), - (899 / 2)]],
             sfreq = 100, ch_names = [''C3'', ''C4''],
             events = [(0, 1), (2, 2), (5, 1)]\<rparr>,
            [True, True, False], Some 2)"
    by code_simp
  show ?thesis
    by (intro conjI) (rule run, rule pipeline_stage_order[OF run])
qed

text \<open>
  C7. For every recording, code map and window that the segmenter accepts: whenever
  \<open>get_clean_trial_mask\<close> returns a mask, the mask has exactly one entry per candidate
  trial of that segmentation, and entry \<open>i\<close> is the verdict on trial \<open>i\<close> (the mask is the
  list of trials mapped, in their order, to the verdict). A mask is returned exactly when
  the segmentation holds at least one trial and every trial holds a value; otherwise the
  reduction of line 71 raises.
\<close>

theorem clean_trial_mask_length_order:
  assumes seg: "create_signal_target_from_raw_mne env c codes ival = Inr s"
  shows "(\<forall>msk. get_clean_trial_mask env c codes ival = Inr msk \<longrightarrow>
            length msk = length (epo_X s)
          \<and> msk = map (\<lambda>t. case trial_peak t of Inl _ \<Rightarrow> False | Inr p \<Rightarrow> p < 800)
                     (epo_X s))
       \<and> ((\<exists>msk. get_clean_trial_mask env c codes ival = Inr msk)
            = (epo_X s \<noteq> [] \<and> list_all (\<lambda>t. concat t \<noteq> []) (epo_X s)))"
proof -
  have run: "get_clean_trial_mask env c codes ival
               = (case max_abs_axis12 (epo_X s) of
                    Inl err \<Rightarrow> Inl err
                  | Inr peaks \<Rightarrow> Inr (map (\<lambda>p. p < 800) peaks))"
    using seg by (simp add: get_clean_trial_mask_def external_def)
  have a: "length msk = length (epo_X s)
         \<and> msk = map (\<lambda>t. case trial_peak t of Inl _ \<Rightarrow> False | Inr p \<Rightarrow> p < 800) (epo_X s)"
    if r: "get_clean_trial_mask env c codes ival = Inr msk" for msk
  proof -
    from r run obtain peaks where
      pk: "max_abs_axis12 (epo_X s) = Inr peaks" and m: "msk = map (\<lambda>p. p < 800) peaks"
      by (auto split: sum.splits)
    from max_abs_axis12_Inr[OF pk] have
      len: "length peaks = length (epo_X s)"
      and all: "\<forall>i<length (epo_X s). trial_peak (epo_X s ! i) = Inr (peaks ! i)" by simp_all
    have "map (\<lambda>p. p < 800) peaks
            = map (\<lambda>t. case trial_peak t of Inl _ \<Rightarrow> False | Inr p \<Rightarrow> p < 800) (epo_X s)"
      using len all by (intro nth_equalityI) simp_all
    with m len show ?thesis by simp
  qed
  have b: "(\<exists>msk. get_clean_trial_mask env c codes ival = Inr msk)
             = (epo_X s \<noteq> [] \<and> list_all (\<lambda>t. concat t \<noteq> []) (epo_X s))"
  proof
    assume "\<exists>msk. get_clean_trial_mask env c codes ival = Inr msk"
    with run obtain peaks where "max_abs_axis12 (epo_X s) = Inr peaks"
      by (auto split: sum.splits)
    then have some: "epo_X s \<noteq> []" and tp: "trial_peaks (epo_X s) = Inr peaks"
      by (auto simp: max_abs_axis12_def split: if_splits)
    from some trial_peaks_Inr_holds_values[OF tp]
    show "epo_X s \<noteq> [] \<and> list_all (\<lambda>t. concat t \<noteq> []) (epo_X s)"
      by (rule conjI)
  next
    assume "epo_X s \<noteq> [] \<and> list_all (\<lambda>t. concat t \<noteq> []) (epo_X s)"
    then obtain peaks where "max_abs_axis12 (epo_X s) = Inr peaks"
      using max_abs_axis12_total by blast
    with run show "\<exists>msk. get_clean_trial_mask env c codes ival = Inr msk" by simp
  qed
  from a b show ?thesis by blast
qed

theorem clean_trial_mask_length_order_witness:
  "create_signal_target_from_raw_mne (demo_env test_rec) mixed_rec demo_codes (0, 4000)
     = Inr \<lparr>epo_X = [[[900], [3]], [[2], [5]], [[6], [- 850]], [[4], [0]]],
             epo_y = [1, 2, 1, 2]\<rparr>
   \<and> get_clean_trial_mask (demo_env test_rec) mixed_rec demo_codes (0, 4000)
     = Inr [False, True, False, True]
   \<and> length [False, True, False, True]
     = length [[[900], [3]], [[2], [5]], [[6], [- 850]], [[4], [0 :: rat]]]
   \<and> [False, True, False, True]
     = map (\<lambda>t. case trial_peak t of Inl _ \<Rightarrow> False | Inr p \<Rightarrow> p < 800)
         [[[900], [3]], [[2], [5]], [[6], [- 850]], [[4], [0]]]"
proof -
  let ?s = "\<lparr>epo_X = [[[900], [3]], [[2], [5]], [[6], [- 850]], [[4], [0]]],
              epo_y = [1, 2, 1, 2]\<rparr>"
  have seg: "create_signal_target_from_raw_mne (demo_env test_rec) mixed_rec demo_codes (0, 4000)
               = Inr ?s"
    by code_simp
  have run: "get_clean_trial_mask (demo_env test_rec) mixed_rec demo_codes (0, 4000)
               = Inr [False, True, False, True]"
    by code_simp
  from clean_trial_mask_length_order[OF seg] run have
    "length [False, True, False, True] = length (epo_X ?s)
     \<and> [False, True, False, True]
        = map (\<lambda>t. case trial_peak t of Inl _ \<Rightarrow> False | Inr p \<Rightarrow> p < 800) (epo_X ?s)"
    by blast
  with seg run show ?thesis by simp
qed

text \<open>
  C8. For every path list, the body of \<open>load_and_preprocess_data\<close> raises its own
  exception exactly when the list has neither one nor two paths (what a collaborator raises
  is a different error). \<open>get_data_files_paths\<close> returns two paths when
  \<open>train_test_split\<close> is true and one otherwise, so \<open>load_and_preprocess_data\<close> never
  raises that exception.
\<close>

theorem file_count_error_iff:
  "(load_and_preprocess_paths env file_paths codes names rf ival clean = Inl FileCountError)
     = (length file_paths \<noteq> 1 \<and> length file_paths \<noteq> 2)
   \<and> length (get_data_files_paths data_dir subject_id train_test_split)
     = (if train_test_split then 2 else 1)
   \<and> load_and_preprocess_data env data_dir codes names subject_id rf ival train_test_split clean
     \<noteq> Inl FileCountError"
proof -
  have a: "(load_and_preprocess_paths env ps codes names rf ival clean = Inl FileCountError)
             = (length ps \<noteq> 1 \<and> length ps \<noteq> 2)" for ps
  proof (cases "load_files env ps names clean")
    case (Inl e)
    then have "load_and_preprocess_paths env ps codes names rf ival clean = Inl e"
      by (simp add: load_and_preprocess_paths_def)
    with Inl load_files_file_count[of env ps names clean] show ?thesis by simp
  next
    case (Inr r)
    obtain raw t where r: "r = (raw, t)" by (cases r)
    have "load_and_preprocess_paths env ps codes names rf ival clean \<noteq> Inl FileCountError"
      using Inr r preprocess_loaded_not_file_count[of env raw codes names rf ival]
      by (auto simp: load_and_preprocess_paths_def split: sum.splits prod.splits)
    moreover have "\<not> (length ps \<noteq> 1 \<and> length ps \<noteq> 2)"
      using Inr load_files_file_count[of env ps names clean] by simp
    ultimately show ?thesis by simp
  qed
  have b: "length (get_data_files_paths data_dir subject_id train_test_split)
             = (if train_test_split then 2 else 1)"
    by (rule length_get_data_files_paths)
  have "load_and_preprocess_data env data_dir codes names subject_id rf ival train_test_split clean
          \<noteq> Inl FileCountError"
    unfolding load_and_preprocess_data_def a b by simp
  with a b show ?thesis by simp
qed

text \<open>
  C9. Over exact arithmetic, the mean subtraction of \<open>standardize_cnt\<close> is idempotent:
  on every rectangular signal matrix, applying it twice gives what applying it once gives,
  and after one application the mean across channels is zero at every time sample.
\<close>

theorem subtract_mean_idempotent:
  assumes "rectangular x"
  shows "subtract_mean (subtract_mean x) = subtract_mean x
         \<and> mean_axis0 (subtract_mean x) = replicate (n_samples x) 0"
proof -
  have m: "mean_axis0 (subtract_mean x) = replicate (n_samples x) 0"
    using assms by (rule mean_axis0_subtract_mean)
  have "list_all (\<lambda>r. length r = n_samples x) (subtract_mean x)"
    using rectangular_subtract_mean[OF assms] n_samples_subtract_mean[OF assms]
    by (simp add: rectangular_def)
  then have "map (\<lambda>r. map2 (-) r (replicate (n_samples x) 0)) (subtract_mean x) = subtract_mean x"
    by (simp add: list_all_iff map2_minus_zero map_idI)
  then have "subtract_mean (subtract_mean x) = subtract_mean x"
    using m by (simp add: subtract_mean_def[of "subtract_mean x"])
  with m show ?thesis by simp
qed

theorem subtract_mean_idempotent_witness:
  "rectangular [[1, 2, 6], [3, 5, 1]] \<and>
   subtract_mean [[1, 2, 6], [3, 5, 1]] = [[-1, -3/2, 5/2], [1, 3/2, -5/2]] \<and>
   subtract_mean (subtract_mean [[1, 2, 6], [3, 5, 1]]) = subtract_mean [[1, 2, 6], [3, 5, 1]] \<and>
   mean_axis0 (subtract_mean [[1, 2, 6], [3, 5, 1]]) = [0, 0, 0]"
proof -
  have r: "rectangular [[1, 2, 6], [3, 5, 1]]"
    by (simp add: rectangular_def n_samples_def)
  have v: "subtract_mean [[1, 2, 6], [3, 5, 1]] = [[-1, -3/2, 5/2], [1, 3/2, -5/2]]"
    by (simp add: subtract_mean_def mean_axis0_def n_samples_def upt_rec)
  have n: "replicate (n_samples [[1, 2, 6], [3, 5, 1::rat]]) (0::rat) = [0, 0, 0]"
    by (simp add: n_samples_def numeral_3_eq_3)
  show ?thesis using subtract_mean_idempotent[OF r] r v n by simp
qed

text \<open>
  C10. With \<open>clean_on_all_channels\<close> true, \<open>load_cnt\<close> does not depend on
  \<open>channel_names\<close>: for every reader, file path and two channel-name lists, both calls
  hand the reader the same arguments (the path and the all-channels sentinel) and give
  the same result, a recording or the reader's error.
\<close>

theorem load_cnt_ignores_channel_names:
  "load_cnt env file_path names1 True = load_cnt env file_path names2 True"
  by (simp add: load_cnt_def)

end
